theory Spec2Isabelle
  imports Complex_Main "HOL-Library.Sublist"
begin

section \<open>Strings as the program uses them\<close>

text \<open>
  Python strings are modelled as \<open>string\<close> (lists of 8-bit characters); the model covers
  ASCII text.  \<open>str.lower\<close> maps \<open>A..Z\<close> (codes 65 to 90: the bit pattern \<open>010xxxxx\<close> with
  \<open>xxxxx\<close> from 1 to 26) to \<open>a..z\<close> by setting bit 5; \<open>str.strip\<close> removes leading and
  trailing white space (the ASCII characters for which \<open>str.isspace\<close> holds, which are also
  the ASCII characters matched by \<open>\s\<close>); \<open>x in s\<close> on strings is \<^const>\<open>sublist\<close>.
\<close>

fun lower_char :: "char \<Rightarrow> char" where
  "lower_char (Char b0 b1 b2 b3 b4 b5 b6 b7) =
     (if \<not> b7 \<and> b6 \<and> \<not> b5 \<and> (b0 \<or> b1 \<or> b2 \<or> b3 \<or> b4) \<and> \<not> (b4 \<and> b3 \<and> (b2 \<or> (b1 \<and> b0)))
      then Char b0 b1 b2 b3 b4 True b6 b7
      else Char b0 b1 b2 b3 b4 b5 b6 b7)"

definition lower :: "string \<Rightarrow> string" where
  "lower s = map lower_char s"

definition is_space :: "char \<Rightarrow> bool" where
  "is_space c = (c \<in> set [CHR 0x09, CHR 0x0A, CHR 0x0B, CHR 0x0C, CHR 0x0D,
                            CHR 0x1C, CHR 0x1D, CHR 0x1E, CHR 0x1F, CHR '' ''])"

definition is_digit :: "char \<Rightarrow> bool" where
  "is_digit c = (c \<in> set ''0123456789'')"

definition lstrip :: "string \<Rightarrow> string" where
  "lstrip s = dropWhile is_space s"

definition rstrip :: "string \<Rightarrow> string" where
  "rstrip s = rev (dropWhile is_space (rev s))"

definition strip :: "string \<Rightarrow> string" where
  "strip s = rstrip (lstrip s)"

section \<open>Regular expressions (the fragment of Python's \<open>re\<close> the program uses)\<close>

text \<open>
  The program's patterns are written as terms of \<open>regex\<close>.  Quantifiers occur in them only
  on single-character classes (\<open>.+\<close>, \<open>.+?\<close>, \<open>[^?.,!]+\<close>, \<open>\d+\<close>, \<open>\s*\<close>, ...) and on
  optional groups, and every pattern has at most one capturing group.

  \<open>rmatch\<close> is a backtracking matcher: it returns every way the pattern can match at a
  position, in the order in which Python's engine tries them (left alternative first, greedy
  quantifiers longest first, lazy ones shortest first), so the head of the list is the
  match Python reports.  A result is the text of group 1 (if the group took part), the end
  position, and the input that remains.
\<close>

datatype citem = Ch char | Digit | Space

datatype cls = Dot | Pos "citem list" | Neg "citem list"

datatype regex =
    Str string
  | Cls cls
  | Seq regex regex
  | Alt regex regex
  | Opt regex
  | Star cls
  | Plus cls
  | LazyPlus cls
  | Group regex
  | Bol

fun citem_ok :: "bool \<Rightarrow> citem \<Rightarrow> char \<Rightarrow> bool" where
  "citem_ok ic (Ch d) c = (if ic then lower_char c = lower_char d else c = d)"
| "citem_ok ic Digit c = is_digit c"
| "citem_ok ic Space c = is_space c"

fun cls_ok :: "bool \<Rightarrow> cls \<Rightarrow> char \<Rightarrow> bool" where
  "cls_ok ic Dot c = (c \<noteq> CHR 0x0A)"
| "cls_ok ic (Pos xs) c = list_ex (\<lambda>x. citem_ok ic x c) xs"
| "cls_ok ic (Neg xs) c = (\<not> list_ex (\<lambda>x. citem_ok ic x c) xs)"

definition lit_ok :: "bool \<Rightarrow> string \<Rightarrow> string \<Rightarrow> bool" where
  "lit_ok ic p s = (if ic then lower (take (length p) s) = lower p else take (length p) s = p)"

type_synonym mresult = "string option \<times> nat \<times> string"

definition orelse :: "'a option \<Rightarrow> 'a option \<Rightarrow> 'a option" where
  "orelse a b = (case a of Some x \<Rightarrow> Some x | None \<Rightarrow> b)"

text \<open>The ways a class can repeat at the head of \<open>s\<close>: \<open>ns\<close> lists the admissible counts in
  the order of preference.\<close>

definition repeat :: "nat \<Rightarrow> string \<Rightarrow> nat list \<Rightarrow> mresult list" where
  "repeat p s ns = map (\<lambda>n. (None, p + n, drop n s)) ns"

definition run :: "bool \<Rightarrow> cls \<Rightarrow> string \<Rightarrow> nat" where
  "run ic k s = length (takeWhile (cls_ok ic k) s)"

fun rmatch :: "bool \<Rightarrow> regex \<Rightarrow> nat \<Rightarrow> string \<Rightarrow> mresult list" where
  "rmatch ic (Str w) p s = (if lit_ok ic w s then [(None, p + length w, drop (length w) s)] else [])"
| "rmatch ic (Cls k) p s =
     (case s of [] \<Rightarrow> [] | c # t \<Rightarrow> if cls_ok ic k c then [(None, Suc p, t)] else [])"
| "rmatch ic (Seq a b) p s =
     concat (map (\<lambda>(g, q, t). map (\<lambda>(h, q', t'). (orelse h g, q', t')) (rmatch ic b q t))
                 (rmatch ic a p s))"
| "rmatch ic (Alt a b) p s = rmatch ic a p s @ rmatch ic b p s"
| "rmatch ic (Opt a) p s = rmatch ic a p s @ [(None, p, s)]"
| "rmatch ic (Star k) p s = repeat p s (rev [0 ..< Suc (run ic k s)])"
| "rmatch ic (Plus k) p s = repeat p s (rev [1 ..< Suc (run ic k s)])"
| "rmatch ic (LazyPlus k) p s = repeat p s [1 ..< Suc (run ic k s)]"
| "rmatch ic (Group a) p s =
     map (\<lambda>(g, q, t). (Some (take (q - p) s), q, t)) (rmatch ic a p s)"
| "rmatch ic Bol p s = (if p = 0 then [(None, p, s)] else [])"

text \<open>Sequences and alternations of several parts.\<close>

fun seqs :: "regex list \<Rightarrow> regex" where
  "seqs [] = Str []"
| "seqs [r] = r"
| "seqs (r # rs) = Seq r (seqs rs)"

fun alts :: "regex list \<Rightarrow> regex" where
  "alts [] = Cls (Pos [])"
| "alts [r] = r"
| "alts (r # rs) = Alt r (alts rs)"

definition words :: "string list \<Rightarrow> regex" where
  "words ws = alts (map Str ws)"

subsection \<open>\<open>re.search\<close>, \<open>re.findall\<close>, \<open>re.sub\<close>, \<open>re.split\<close>\<close>

text \<open>
  All four scan the subject from the left and take the first match at the leftmost
  position that has one.  None of the program's patterns can match the empty string; where
  a match consumes nothing the scan moves on by one character.
\<close>

fun search_from :: "bool \<Rightarrow> regex \<Rightarrow> nat \<Rightarrow> string \<Rightarrow> mresult option" where
  "search_from ic r p s =
     (case rmatch ic r p s of
        x # _ \<Rightarrow> Some x
      | [] \<Rightarrow> (case s of [] \<Rightarrow> None | c # t \<Rightarrow> search_from ic r (Suc p) t))"

definition re_search :: "bool \<Rightarrow> regex \<Rightarrow> string \<Rightarrow> mresult option" where
  "re_search ic r s = search_from ic r 0 s"

definition re_found :: "bool \<Rightarrow> regex \<Rightarrow> string \<Rightarrow> bool" where
  "re_found ic r s = (re_search ic r s \<noteq> None)"

text \<open>\<open>match.group(1)\<close>; the empty string stands for a group that took no part, as in
  \<open>re.findall\<close>.\<close>

definition group1 :: "mresult \<Rightarrow> string" where
  "group1 x = (case fst x of Some g \<Rightarrow> g | None \<Rightarrow> [])"

fun findall_from :: "bool \<Rightarrow> regex \<Rightarrow> nat \<Rightarrow> string \<Rightarrow> string list" where
  "findall_from ic r p s =
     (case rmatch ic r p s of
        [] \<Rightarrow> (case s of [] \<Rightarrow> [] | c # t \<Rightarrow> findall_from ic r (Suc p) t)
      | x # _ \<Rightarrow>
          group1 x #
          (if length (snd (snd x)) < length s then findall_from ic r (fst (snd x)) (snd (snd x))
           else (case s of [] \<Rightarrow> [] | c # t \<Rightarrow> findall_from ic r (Suc p) t)))"

definition re_findall :: "bool \<Rightarrow> regex \<Rightarrow> string \<Rightarrow> string list" where
  "re_findall ic r s = findall_from ic r 0 s"

text \<open>\<open>re.sub(pattern, '', s)\<close>: every match is deleted.\<close>

fun sub_from :: "bool \<Rightarrow> regex \<Rightarrow> nat \<Rightarrow> string \<Rightarrow> string" where
  "sub_from ic r p s =
     (case rmatch ic r p s of
        [] \<Rightarrow> (case s of [] \<Rightarrow> [] | c # t \<Rightarrow> c # sub_from ic r (Suc p) t)
      | x # _ \<Rightarrow>
          (if length (snd (snd x)) < length s then sub_from ic r (fst (snd x)) (snd (snd x))
           else (case s of [] \<Rightarrow> [] | c # t \<Rightarrow> c # sub_from ic r (Suc p) t)))"

definition re_sub_empty :: "bool \<Rightarrow> regex \<Rightarrow> string \<Rightarrow> string" where
  "re_sub_empty ic r s = sub_from ic r 0 s"

text \<open>\<open>re.split(pattern, s)\<close> for a pattern without groups; \<open>cur\<close> is the piece being read.\<close>

fun split_from :: "bool \<Rightarrow> regex \<Rightarrow> nat \<Rightarrow> string \<Rightarrow> string \<Rightarrow> string list" where
  "split_from ic r p s cur =
     (case s of
        [] \<Rightarrow> [cur]
      | c # t \<Rightarrow>
          (case rmatch ic r p s of
             [] \<Rightarrow> split_from ic r (Suc p) t (cur @ [c])
           | x # _ \<Rightarrow>
               (if length (snd (snd x)) < length s
                then cur # split_from ic r (fst (snd x)) (snd (snd x)) []
                else split_from ic r (Suc p) t (cur @ [c]))))"

definition re_split :: "bool \<Rightarrow> regex \<Rightarrow> string \<Rightarrow> string list" where
  "re_split ic r s = split_from ic r 0 s []"

text \<open>The splitter \<open>,|\sand\s\<close> used on captured clauses, and the cleaning of its pieces:
  \<open>[x.strip().lower() for x in pieces if x.strip()]\<close> and the variant without \<open>lower\<close>.\<close>

definition comma_or_and :: regex where
  "comma_or_and = Alt (Str '','') (seqs [Cls (Pos [Space]), Str ''and'', Cls (Pos [Space])])"

definition strip_lower_nonempty :: "string list \<Rightarrow> string list" where
  "strip_lower_nonempty xs = map (\<lambda>x. lower (strip x)) (filter (\<lambda>x. strip x \<noteq> []) xs)"

definition strip_nonempty :: "string list \<Rightarrow> string list" where
  "strip_nonempty xs = map strip (filter (\<lambda>x. strip x \<noteq> []) xs)"

section \<open>User memory (app/core/memory.py)\<close>

record message =
  role :: string
  content :: string
  timestamp :: string

record user_memory =
  favorite_ingredients :: "string set"
  favorite_cocktails :: "string set"
  conversation_history :: "message list"

text \<open>A freshly constructed \<open>UserMemory\<close> for which no file is stored.  Writing the memory
  back to its file (\<open>_save_memory\<close>) changes nothing in the object and is left out.\<close>

definition new_memory :: user_memory where
  "new_memory = \<lparr>favorite_ingredients = {}, favorite_cocktails = {}, conversation_history = []\<rparr>"

definition add_favorite_ingredient :: "user_memory \<Rightarrow> string \<Rightarrow> user_memory" where
  "add_favorite_ingredient m ingredient =
     m\<lparr>favorite_ingredients := insert (strip (lower ingredient)) (favorite_ingredients m)\<rparr>"

definition remove_favorite_ingredient :: "user_memory \<Rightarrow> string \<Rightarrow> user_memory \<times> bool" where
  "remove_favorite_ingredient m ingredient =
     (let i = strip (lower ingredient)
      in if i \<in> favorite_ingredients m
         then (m\<lparr>favorite_ingredients := favorite_ingredients m - {i}\<rparr>, True)
         else (m, False))"

definition add_favorite_cocktail :: "user_memory \<Rightarrow> string \<Rightarrow> user_memory" where
  "add_favorite_cocktail m cocktail =
     m\<lparr>favorite_cocktails := insert (strip cocktail) (favorite_cocktails m)\<rparr>"

definition remove_favorite_cocktail :: "user_memory \<Rightarrow> string \<Rightarrow> user_memory \<times> bool" where
  "remove_favorite_cocktail m cocktail =
     (let c = strip cocktail
      in if c \<in> favorite_cocktails m
         then (m\<lparr>favorite_cocktails := favorite_cocktails m - {c}\<rparr>, True)
         else (m, False))"

text \<open>
  \<open>add_to_conversation_history\<close>: append, then keep \<open>history[-50:]\<close> when the list has
  grown past 50.  The time stamp is read from the clock and is a parameter here.
\<close>

definition add_to_conversation_history ::
  "user_memory \<Rightarrow> string \<Rightarrow> string \<Rightarrow> string \<Rightarrow> user_memory" where
  "add_to_conversation_history m r c ts =
     (let h = conversation_history m @ [\<lparr>role = r, content = c, timestamp = ts\<rparr>]
      in m\<lparr>conversation_history := (if length h > 50 then drop (length h - 50) h else h)\<rparr>)"

text \<open>A sequence of appends, each given as (role, content, time stamp).\<close>

fun add_all :: "user_memory \<Rightarrow> (string \<times> string \<times> string) list \<Rightarrow> user_memory" where
  "add_all m [] = m"
| "add_all m ((r, c, ts) # es) = add_all (add_to_conversation_history m r c ts) es"

definition entry :: "string \<times> string \<times> string \<Rightarrow> message" where
  "entry e = (case e of (r, c, ts) \<Rightarrow> \<lparr>role = r, content = c, timestamp = ts\<rparr>)"

definition last_n :: "nat \<Rightarrow> 'a list \<Rightarrow> 'a list" where
  "last_n n xs = drop (length xs - n) xs"

subsection \<open>Preference detection\<close>

definition end_mark :: regex where
  "end_mark = Cls (Pos [Ch (CHR ''.''), Ch (CHR ''!'')])"

definition in_my_drinks :: regex where
  "in_my_drinks = Opt (Seq (Str '' in my '') (words [''drinks'', ''cocktails'']))"

definition ingredient_preference_patterns :: "regex list" where
  "ingredient_preference_patterns =
    [seqs [Str ''I '', Opt (Str ''really ''), Str ''like'', Opt (Str '' to use''), Str '' '',
           Group (LazyPlus Dot), in_my_drinks, end_mark],
     seqs [Str ''I '', Opt (Str ''really ''), Str ''love'', Opt (Str '' to use''), Str '' '',
           Group (LazyPlus Dot), in_my_drinks, end_mark],
     seqs [Str ''My favorite '', words [''ingredient'', ''ingredients''], Str '' '',
           words [''is'', ''are''], Str '' '', Group (LazyPlus Dot), end_mark],
     seqs [Str ''I prefer '', Opt (Str ''to use ''), Group (LazyPlus Dot), in_my_drinks, end_mark],
     seqs [Str ''I enjoy '', Opt (Str ''using ''), Group (LazyPlus Dot), in_my_drinks, end_mark]]"

definition cocktail_preference_patterns :: "regex list" where
  "cocktail_preference_patterns =
    [seqs [Str ''I '', Opt (Str ''really ''), Str ''like'', Opt (Str '' to drink''), Str '' '',
           Opt (Str ''the ''), Group (LazyPlus Dot), Opt (Str '' cocktail''), end_mark],
     seqs [Str ''I '', Opt (Str ''really ''), Str ''love'', Opt (Str '' to drink''), Str '' '',
           Opt (Str ''the ''), Group (LazyPlus Dot), Opt (Str '' cocktail''), end_mark],
     seqs [Str ''My favorite '', words [''cocktail'', ''drink''], Str '' is '',
           Opt (Str ''the ''), Group (LazyPlus Dot), end_mark],
     seqs [Str ''I prefer '', Opt (Str ''to drink ''), Opt (Str ''the ''), Group (LazyPlus Dot),
           Opt (Str '' cocktail''), end_mark],
     seqs [Str ''I enjoy '', Opt (Str ''drinking ''), Opt (Str ''the ''), Group (LazyPlus Dot),
           Opt (Str '' cocktail''), end_mark]]"

text \<open>For each pattern in turn, every match's captured clause is split on commas and
  \<open>and\<close>; the pieces are stripped (and lowercased, for ingredients) and collected.\<close>

definition detect_favorite_ingredients :: "string \<Rightarrow> string list" where
  "detect_favorite_ingredients msg =
     concat (map (\<lambda>pattern.
        concat (map (\<lambda>m. strip_lower_nonempty (re_split False comma_or_and m))
                    (re_findall True pattern msg)))
       ingredient_preference_patterns)"

definition detect_favorite_cocktails :: "string \<Rightarrow> string list" where
  "detect_favorite_cocktails msg =
     concat (map (\<lambda>pattern.
        concat (map (\<lambda>m. strip_nonempty (re_split False comma_or_and m))
                    (re_findall True pattern msg)))
       cocktail_preference_patterns)"

text \<open>The two loops of \<open>process_user_message\<close>: an item not yet in the set is added and
  reported as new.\<close>

fun add_new_ingredients :: "user_memory \<Rightarrow> string list \<Rightarrow> user_memory \<times> string list" where
  "add_new_ingredients m [] = (m, [])"
| "add_new_ingredients m (i # rest) =
     (if i \<notin> favorite_ingredients m
      then (case add_new_ingredients (add_favorite_ingredient m i) rest of
              (m', new) \<Rightarrow> (m', i # new))
      else add_new_ingredients m rest)"

fun add_new_cocktails :: "user_memory \<Rightarrow> string list \<Rightarrow> user_memory \<times> string list" where
  "add_new_cocktails m [] = (m, [])"
| "add_new_cocktails m (c # rest) =
     (if c \<notin> favorite_cocktails m
      then (case add_new_cocktails (add_favorite_cocktail m c) rest of
              (m', new) \<Rightarrow> (m', c # new))
      else add_new_cocktails m rest)"

record preference_result =
  new_favorite_ingredients :: "string list"
  new_favorite_cocktails :: "string list"

definition process_user_message ::
  "string \<Rightarrow> user_memory \<Rightarrow> string \<Rightarrow> user_memory \<times> preference_result" where
  "process_user_message now m msg =
     (case add_new_ingredients m (detect_favorite_ingredients msg) of (m1, new_i) \<Rightarrow>
      case add_new_cocktails m1 (detect_favorite_cocktails msg) of (m2, new_c) \<Rightarrow>
        (add_to_conversation_history m2 ''user'' msg now,
         \<lparr>new_favorite_ingredients = new_i, new_favorite_cocktails = new_c\<rparr>))"

section \<open>The corpus (app/utils/data\_processor.py)\<close>

text \<open>A row of the cleaned data frame: the five required columns and the two derived
  ones.\<close>

record cocktail =
  name :: string
  ingredients :: string
  garnish :: string
  preparation :: string
  glass :: string
  is_alcoholic :: bool
  ingredients_list :: "string list"

definition delimiters :: regex where
  "delimiters = Cls (Pos [Ch (CHR '',''), Ch (CHR '';''), Ch (CHR 0x0A)])"

definition of_spaces :: regex where
  "of_spaces = Opt (Seq (Str ''of'') (Plus (Pos [Space])))"

text \<open>\<open>^\d+\s*(?:oz|ml|...|wedges?)\s+(?:of\s+)?\<close> (matched ignoring case) and
  \<open>^\d+[/\d\s.]*\s+(?:of\s+)?\<close>.\<close>

definition measured_quantity :: regex where
  "measured_quantity =
     seqs [Bol, Plus (Pos [Digit]), Star (Pos [Space]),
           alts [Str ''oz'', Str ''ml'', Str ''cl'', Str ''dash'', Str ''dashes'', Str ''teaspoon'',
                 Str ''tablespoon'', Str ''tsp'', Str ''tbsp'', Str ''shot'', Str ''shots'',
                 Str ''part'', Str ''parts'', Str ''pinch'', Str ''drops'', Str ''splash'',
                 Seq (Str ''sprig'') (Opt (Str ''s'')), Seq (Str ''slice'') (Opt (Str ''s'')),
                 Seq (Str ''wedge'') (Opt (Str ''s''))],
           Plus (Pos [Space]), of_spaces]"

definition bare_quantity :: regex where
  "bare_quantity =
     seqs [Bol, Plus (Pos [Digit]), Star (Pos [Ch (CHR ''/''), Digit, Space, Ch (CHR ''.'')]),
           Plus (Pos [Space]), of_spaces]"

text \<open>\<open>\([^)]*\)\<close>\<close>

definition parenthesised :: regex where
  "parenthesised = seqs [Str ''('', Star (Neg [Ch (CHR '')'')]), Str '')'']"


text \<open>The body of the loop of \<open>_extract_ingredients\<close> for one piece: \<open>None\<close> when the piece
  contributes nothing.\<close>

definition clean_ingredient :: "string \<Rightarrow> string option" where
  "clean_ingredient piece =
     (let ingredient = strip piece
      in if ingredient = [] then None
         else let ingredient = re_sub_empty True measured_quantity ingredient;
                  ingredient = re_sub_empty False bare_quantity ingredient;
                  ingredient = re_sub_empty False parenthesised ingredient;
                  ingredient = strip ingredient
              in if ingredient = [] then None else Some (lower ingredient))"

definition extract_ingredients :: "string \<Rightarrow> string list" where
  "extract_ingredients ingredients_text =
     (if ingredients_text = [] then []
      else List.map_filter clean_ingredient (re_split False delimiters ingredients_text))"

text \<open>\<open>_clean_data\<close>, for a row given by its five required columns: the alcoholic flag and
  the token list are derived from the raw ingredient text.\<close>

definition non_alcoholic_words :: regex where
  "non_alcoholic_words =
     words [''non-alcoholic'', ''non alcoholic'', ''alcohol-free'', ''alcohol free'', ''virgin'']"

definition clean_row :: "string \<times> string \<times> string \<times> string \<times> string \<Rightarrow> cocktail" where
  "clean_row row = (case row of (n, i, g, p, gl) \<Rightarrow>
     \<lparr>name = n, ingredients = i, garnish = g, preparation = p, glass = gl,
      is_alcoholic = (\<not> re_found True non_alcoholic_words (lower i)),
      ingredients_list = extract_ingredients i\<rparr>)"

definition clean_data :: "(string \<times> string \<times> string \<times> string \<times> string) list \<Rightarrow> cocktail list" where
  "clean_data rows = map clean_row rows"

definition get_cocktails_containing :: "cocktail list \<Rightarrow> string \<Rightarrow> cocktail list" where
  "get_cocktails_containing df ingredient =
     filter (\<lambda>r. list_ex (\<lambda>ing. sublist (lower ingredient) ing) (ingredients_list r)) df"

definition get_non_alcoholic_cocktails :: "cocktail list \<Rightarrow> cocktail list" where
  "get_non_alcoholic_cocktails df = filter (\<lambda>r. \<not> is_alcoholic r) df"

text \<open>Exceptions of the modelled code: \<open>IndexError\<close> (list subscript), \<open>ValueError\<close>
  (\<open>DataFrame.sample\<close> of more rows than there are), \<open>TypeError\<close> (hashing a list) and
  \<open>ReError\<close> (\<open>re.error\<close>, an invalid pattern).\<close>

datatype error = IndexError | ValueError | TypeError | ReError

text \<open>
  \<open>get_cocktail_by_name\<close>.  The fallback is \<open>Series.str.contains(name, case=False)\<close>, which
  the library evaluates with its default \<open>regex=True\<close>: the name is compiled as a regular
  expression (\<open>re.compile(name, re.IGNORECASE)\<close>), which may raise, and each stored name is
  searched for it.  \<open>compile_name\<close> gives the pattern of a name made of ordinary characters
  and the wildcard \<open>.\<close>.  For a name with another metacharacter the compiled pattern is
  whatever the library makes of it: the parameter \<open>lib\<close> stands for \<open>re.compile\<close> on such
  names and yields either the error or the test \<open>search(subject) is not None\<close>.
\<close>

definition metacharacters :: "char list" where
  "metacharacters = CHR 0x5C # ''^$*+?{}[]|()''"

definition compile_name :: "string \<Rightarrow> regex option" where
  "compile_name n =
     (if list_ex (\<lambda>c. c \<in> set metacharacters) n then None
      else Some (seqs (map (\<lambda>c. if c = CHR ''.'' then Cls Dot else Str [c]) n)))"

type_synonym regex_library = "string \<Rightarrow> error + (string \<Rightarrow> bool)"

definition str_contains :: "regex_library \<Rightarrow> string \<Rightarrow> error + (string \<Rightarrow> bool)" where
  "str_contains lib pat =
     (case compile_name pat of
        Some r \<Rightarrow> Inr (\<lambda>subject. re_found True r subject)
      | None \<Rightarrow> lib pat)"

definition get_cocktail_by_name ::
  "regex_library \<Rightarrow> cocktail list \<Rightarrow> string \<Rightarrow> error + cocktail option" where
  "get_cocktail_by_name lib df nm =
     (let n = lower nm;
          result = filter (\<lambda>r. lower (name r) = n) df
      in if result \<noteq> [] then Inr (Some (hd result))
         else (case str_contains lib n of
                 Inl e \<Rightarrow> Inl e
               | Inr found \<Rightarrow>
                   (case filter (\<lambda>r. found (lower (name r))) df of
                      [] \<Rightarrow> Inr None
                    | r # _ \<Rightarrow> Inr (Some r))))"

section \<open>Intent classification and entity extraction (app/core/rag.py)\<close>

definition a_an :: regex where
  "a_an = words [''a'', ''an'']"

definition containing_words :: regex where
  "containing_words = alts [Str ''with'', Str ''containing'', Seq (Str ''that '') (words [''has'', ''have''])]"

definition ingredient_patterns :: "regex list" where
  "ingredient_patterns =
    [seqs [Str ''cocktail'', Opt (Str ''s''), Str '' '', containing_words, Str '' '', Group (Plus Dot)],
     seqs [words [''list'', ''show'', ''tell me'', ''what are''], Str '' '',
           Opt (words [''some'', ''the'', ''all'']), Str '' cocktail'', Opt (Str ''s''), Str '' '',
           containing_words, Str '' '', Group (Plus Dot)],
     seqs [Str ''what '', words [''cocktails'', ''drinks''], Str '' '',
           words [''can I make'', ''have'', ''contain''], Str '' '', words [''with'', ''using''],
           Str '' '', Group (Plus Dot)]]"

definition cocktail_patterns :: "regex list" where
  "cocktail_patterns =
    [seqs [words [''how'', ''tell me how''], Str '' to make '', a_an, Str '' '', Group (Plus Dot)],
     seqs [words [''what is'', ''what's''], Str '' '', a_an, Str '' '', Group (Plus Dot)],
     seqs [words [''recipe'', ''ingredients''], Str '' for '', a_an, Str '' '', Group (Plus Dot)]]"

definition recommendation_patterns :: "regex list" where
  "recommendation_patterns =
    [seqs [Str ''recommend '', words [''a'', ''some''], Str '' cocktail'', Opt (Str ''s'')],
     seqs [words [''suggest'', ''give me''], Str '' '', words [''a'', ''some''], Str '' cocktail'',
           Opt (Str ''s'')],
     seqs [Str ''what cocktail should I '', words [''make'', ''try'', ''drink'']],
     seqs [Str ''similar to '', Group (Plus Dot)],
     seqs [Str ''like '', a_an, Str '' '', Group (Plus Dot)]]"

definition preference_patterns :: "regex list" where
  "preference_patterns =
    [seqs [words [''my'', ''I''], Str '' '', words [''like'', ''love'', ''prefer'', ''favorite'', ''enjoy'']],
     seqs [words [''remember'', ''save'', ''store''], Str '' '', words [''this'', ''these'', ''my''],
           Str '' '', words [''preference'', ''ingredient'', ''cocktail'']],
     seqs [Str ''what are my '', words [''favorite'', ''preferred''], Str '' '',
           words [''ingredients'', ''cocktails'']]]"

text \<open>\<open>identify_query_type\<close>: the query is lowercased and the four pattern lists are tried in
  order with \<open>re.search\<close> (no flags).\<close>

definition identify_query_type :: "string \<Rightarrow> string" where
  "identify_query_type query =
     (let query_lower = lower query
      in if list_ex (\<lambda>pattern. re_found False pattern query_lower) ingredient_patterns
           then ''ingredient_query''
         else if list_ex (\<lambda>pattern. re_found False pattern query_lower) cocktail_patterns
           then ''cocktail_query''
         else if list_ex (\<lambda>pattern. re_found False pattern query_lower) recommendation_patterns
           then ''recommendation''
         else if list_ex (\<lambda>pattern. re_found False pattern query_lower) preference_patterns
           then ''preference''
         else ''general'')"

definition clause :: regex where
  "clause = Group (Plus (Neg [Ch (CHR ''?''), Ch (CHR ''.''), Ch (CHR '',''), Ch (CHR ''!'')]))"

text \<open>The first pattern of a list that is found in the subject (\<open>re.IGNORECASE\<close>), with its
  match.\<close>

fun first_search :: "regex list \<Rightarrow> string \<Rightarrow> mresult option" where
  "first_search [] s = None"
| "first_search (pattern # rest) s =
     (case re_search True pattern s of Some x \<Rightarrow> Some x | None \<Rightarrow> first_search rest s)"

definition extract_ingredients_from_query :: "string \<Rightarrow> string list" where
  "extract_ingredients_from_query query =
     (case first_search [Seq (Str ''with '') clause, Seq (Str ''containing '') clause,
                         seqs [Str ''that '', words [''has'', ''have''], Str '' '', clause],
                         Seq (Str ''using '') clause] query of
        Some x \<Rightarrow> strip_lower_nonempty (re_split False comma_or_and (group1 x))
      | None \<Rightarrow> [])"

definition extract_cocktail_from_query :: "string \<Rightarrow> string option" where
  "extract_cocktail_from_query query =
     (case first_search [seqs [Str ''how to make '', a_an, Str '' '', clause],
                         seqs [words [''what is'', ''what's''], Str '' '', a_an, Str '' '', clause],
                         seqs [Str ''recipe for '', a_an, Str '' '', clause],
                         Seq (Str ''similar to '') clause,
                         seqs [Str ''like '', a_an, Str '' '', clause]] query of
        Some x \<Rightarrow> Some (strip (group1 x))
      | None \<Rightarrow> None)"

text \<open>
  The classifier as the specification words it, for comparison with the one above: the same
  ordered rule lists, each rule matched against the query ignoring case
  (\<open>re.IGNORECASE\<close>); the first list with a matching rule gives the category.
\<close>

definition identify_query_type_ignoring_case :: "string \<Rightarrow> string" where
  "identify_query_type_ignoring_case query =
     (if list_ex (\<lambda>pattern. re_found True pattern query) ingredient_patterns
        then ''ingredient_query''
      else if list_ex (\<lambda>pattern. re_found True pattern query) cocktail_patterns
        then ''cocktail_query''
      else if list_ex (\<lambda>pattern. re_found True pattern query) recommendation_patterns
        then ''recommendation''
      else if list_ex (\<lambda>pattern. re_found True pattern query) preference_patterns
        then ''preference''
      else ''general'')"

section \<open>Similarity search (app/core/vectordb.py)\<close>

text \<open>Subscripting a Python list with an integer: positions below zero are read from the
  back, and a position outside the list raises \<open>IndexError\<close>.\<close>

definition py_index :: "'a list \<Rightarrow> int \<Rightarrow> error + 'a" where
  "py_index xs i =
     (if 0 \<le> i \<and> i < int (length xs) then Inr (xs ! nat i)
      else if i < 0 \<and> - int (length xs) \<le> i then Inr (xs ! nat (int (length xs) + i))
      else Inl IndexError)"

text \<open>
  The index is a flat index under squared Euclidean distance (\<open>IndexFlatL2\<close>): its search
  returns, for one query vector, \<open>k\<close> positions and distances, the nearest stored vectors
  first.  When fewer than \<open>k\<close> vectors are stored, the answer is filled up with the position
  \<open>-1\<close> and the largest single-precision number as the distance.  Vectors and distances are
  modelled over the reals.
\<close>

definition l2sqr :: "real list \<Rightarrow> real list \<Rightarrow> real" where
  "l2sqr x y = sum_list (map (\<lambda>(a, b). (a - b)\<^sup>2) (zip x y))"

definition flt_max :: real where
  "flt_max = (2 ^ 24 - 1) * 2 ^ 104"

definition nearest :: "real list list \<Rightarrow> real list \<Rightarrow> nat \<Rightarrow> (int \<times> real) list" where
  "nearest vecs q k =
     take k (sort_key snd (zip (map int [0 ..< length vecs]) (map (l2sqr q) vecs)))"

definition index_search :: "real list list \<Rightarrow> real list \<Rightarrow> nat \<Rightarrow> (int \<times> real) list" where
  "index_search vecs q k =
     nearest vecs q k @ replicate (k - length (nearest vecs q k)) (- 1, flt_max)"

definition score_of :: "real \<Rightarrow> real" where
  "score_of d = 1 / (1 + d)"

text \<open>The loop of \<open>search_cocktails\<close> over the positions and distances returned by the
  index.\<close>

fun collect_results :: "'a list \<Rightarrow> (int \<times> real) list \<Rightarrow> error + ('a \<times> real) list" where
  "collect_results data [] = Inr []"
| "collect_results data ((idx, d) # rest) =
     (if idx < int (length data)
      then (case py_index data idx of
              Inl e \<Rightarrow> Inl e
            | Inr c \<Rightarrow> (case collect_results data rest of
                          Inl e \<Rightarrow> Inl e
                        | Inr rs \<Rightarrow> Inr ((c, score_of d) # rs)))
      else collect_results data rest)"

definition search_cocktails ::
  "real list list \<Rightarrow> 'a list \<Rightarrow> real list \<Rightarrow> nat \<Rightarrow> error + ('a \<times> real) list" where
  "search_cocktails vecs data query_embedding top_k =
     collect_results data (index_search vecs query_embedding top_k)"

section \<open>The orchestrator (app/core/rag.py)\<close>

text \<open>
  What a request reads from outside the program is gathered in \<open>env\<close>: the clock, the
  corpus, the vector index with its metadata list, the embedding model, the generation
  collaborator, the random choice made by \<open>DataFrame.sample\<close>, the order in which a
  Python set is iterated, and the regular-expression library on the names that
  \<open>compile_name\<close> does not cover.  The context placed in the system prompt is kept as a value of
  \<open>prompt\<close>, one constructor for each place that builds one.
\<close>

datatype prompt =
    Found_cocktails nat "string list" "string list"
  | Cocktail_info cocktail
  | From_favorites "string list" "cocktail list"
  | Similar_cocktails string "cocktail list"
  | Popular_cocktails "cocktail list"
  | Your_preferences "string list" "string list"
  | Updated_preferences "string list" "string list"
  | General_info "cocktail list" "string list"

text \<open>A reply is either a fixed message or the text generated from a prompt.\<close>

datatype reply = Direct string | Generated prompt string

fun reply_text :: "reply \<Rightarrow> string" where
  "reply_text (Direct s) = s"
| "reply_text (Generated p s) = s"

record env =
  now :: string
  corpus :: "cocktail list"
  vectors :: "real list list"
  cocktail_data :: "cocktail list"
  encode :: "string \<Rightarrow> real list"
  llm :: "string \<Rightarrow> prompt \<Rightarrow> string"
  sample :: "nat \<Rightarrow> cocktail list"
  set_order :: "string set \<Rightarrow> string list"
  regex_library :: regex_library

fun join :: "string \<Rightarrow> string list \<Rightarrow> string" where
  "join sep [] = []"
| "join sep [x] = x"
| "join sep (x # xs) = x @ sep @ join sep xs"

text \<open>Calling the generation collaborator and recording its answer in the history.\<close>

definition generate :: "env \<Rightarrow> string \<Rightarrow> prompt \<Rightarrow> user_memory \<Rightarrow> reply \<times> user_memory" where
  "generate e query p m =
     (let response = llm e query p
      in (Generated p response, add_to_conversation_history m ''assistant'' response (now e)))"

subsection \<open>Ingredient queries\<close>

text \<open>
  \<open>DataFrame.merge(df, how="inner")\<close> with no \<open>on=\<close> joins on every column the two frames
  share, here all of them.  When one side has no rows the result is the empty frame.
  Otherwise the library factorises each key column through a hash table, and the values of
  \<open>ingredients_list\<close> are Python lists, which cannot be hashed: the call raises \<open>TypeError\<close>.
\<close>

definition merge_inner :: "cocktail list \<Rightarrow> cocktail list \<Rightarrow> error + cocktail list" where
  "merge_inner l r = (if l = [] \<or> r = [] then Inr [] else Inl TypeError)"

definition is_non_alcoholic_query :: "string \<Rightarrow> bool" where
  "is_non_alcoholic_query query =
     (sublist ''non-alcoholic'' (lower query) \<or> sublist ''non alcoholic'' (lower query))"

definition relevant_cocktails :: "cocktail list \<Rightarrow> string \<Rightarrow> string list \<Rightarrow> cocktail list list" where
  "relevant_cocktails df query ings =
     map (\<lambda>ingredient.
            let matching_cocktails = get_cocktails_containing df ingredient
            in if is_non_alcoholic_query query
               then filter (\<lambda>r. \<not> is_alcoholic r) matching_cocktails
               else matching_cocktails)
         ings"

text \<open>\<open>result_df\<close>: the first frame merged with each of the others in turn; \<open>None\<close> when
  there is no frame.\<close>

fun merge_each :: "cocktail list \<Rightarrow> cocktail list list \<Rightarrow> error + cocktail list" where
  "merge_each acc [] = Inr acc"
| "merge_each acc (df # rest) =
     (case merge_inner acc df of Inl err \<Rightarrow> Inl err | Inr merged \<Rightarrow> merge_each merged rest)"

definition result_df :: "cocktail list list \<Rightarrow> error + cocktail list option" where
  "result_df frames =
     (case frames of
        [] \<Rightarrow> Inr None
      | f # fs \<Rightarrow> (case merge_each f fs of Inl err \<Rightarrow> Inl err | Inr res \<Rightarrow> Inr (Some res)))"

fun digit_value :: "char \<Rightarrow> nat" where
  "digit_value c = (case List.find (\<lambda>(d, v). d = c) (zip ''0123456789'' [0 ..< 10]) of
                      Some (d, v) \<Rightarrow> v | None \<Rightarrow> 0)"

definition int_of_digits :: "string \<Rightarrow> nat" where
  "int_of_digits s = foldl (\<lambda>n c. 10 * n + digit_value c) 0 s"

definition result_limit :: "string \<Rightarrow> nat" where
  "result_limit query =
     (case re_search True (seqs [Group (Plus (Pos [Digit])), Plus (Pos [Space]), Str ''cocktails'']) query of
        Some x \<Rightarrow> int_of_digits (group1 x)
      | None \<Rightarrow> 5)"

definition process_ingredient_query ::
  "env \<Rightarrow> string \<Rightarrow> user_memory \<Rightarrow> error + reply \<times> user_memory" where
  "process_ingredient_query e query m =
     (let ings = extract_ingredients_from_query query
      in if ings = []
         then Inr (Direct ''I couldn't identify which ingredients you're asking about. Could you specify which ingredients you're interested in?'', m)
         else
           (case result_df (relevant_cocktails (corpus e) query ings) of
              Inl err \<Rightarrow> Inl err
            | Inr (Some (r # rs)) \<Rightarrow>
                Inr (generate e query
                       (Found_cocktails (length (r # rs)) ings
                          (take (result_limit query) (map name (r # rs)))) m)
            | Inr _ \<Rightarrow>
                Inr (Direct (''I couldn't find any cocktails containing '' @ join '', '' ings @
                             ''. Would you like to try different ingredients?''), m)))"

subsection \<open>The other branches\<close>

definition vector_search :: "env \<Rightarrow> string \<Rightarrow> nat \<Rightarrow> error + (cocktail \<times> real) list" where
  "vector_search e query top_k =
     search_cocktails (vectors e) (cocktail_data e) (encode e query) top_k"

definition get_cocktails_with_ingredients ::
  "env \<Rightarrow> string list \<Rightarrow> nat \<Rightarrow> error + (cocktail \<times> real) list" where
  "get_cocktails_with_ingredients e ings top_k =
     vector_search e (''Cocktail with ingredients: '' @ join '', '' ings) top_k"

definition get_similar_cocktails :: "env \<Rightarrow> string \<Rightarrow> nat \<Rightarrow> error + (cocktail \<times> real) list" where
  "get_similar_cocktails e cocktail_name top_k =
     (case get_cocktail_by_name (regex_library e) (corpus e) cocktail_name of
        Inl err \<Rightarrow> Inl err
      | Inr None \<Rightarrow> Inr []
      | Inr (Some c) \<Rightarrow>
          vector_search e (''Cocktail with ingredients: '' @ join '', '' (ingredients_list c)) top_k)"

definition process_cocktail_query ::
  "env \<Rightarrow> string \<Rightarrow> user_memory \<Rightarrow> error + reply \<times> user_memory" where
  "process_cocktail_query e query m =
     (case extract_cocktail_from_query query of
        None \<Rightarrow> Inr (Direct ''I couldn't identify which cocktail you're asking about. Could you specify the name of the cocktail?'', m)
      | Some cocktail_name \<Rightarrow>
          if cocktail_name = []
          then Inr (Direct ''I couldn't identify which cocktail you're asking about. Could you specify the name of the cocktail?'', m)
          else (case get_cocktail_by_name (regex_library e) (corpus e) cocktail_name of
                  Inl err \<Rightarrow> Inl err
                | Inr (Some c) \<Rightarrow> Inr (generate e query (Cocktail_info c) m)
                | Inr None \<Rightarrow>
                    Inr (Direct (''I couldn't find information about '' @ cocktail_name @
                                 ''. Could you check the spelling or try a different cocktail?''), m)))"

definition asks_from_favorites :: "string \<Rightarrow> bool" where
  "asks_from_favorites query =
     (sublist ''favorite'' (lower query) \<or> sublist ''favourites'' (lower query) \<or>
      sublist ''prefer'' (lower query))"

definition process_recommendation_query ::
  "env \<Rightarrow> string \<Rightarrow> user_memory \<Rightarrow> error + reply \<times> user_memory" where
  "process_recommendation_query e query m =
     (let cocktail_name = extract_cocktail_from_query query
      in if asks_from_favorites query then
           (let favs = set_order e (favorite_ingredients m)
            in if favs = []
               then Inr (Direct ''I don't have any information about your favorite ingredients yet. Would you like to tell me what ingredients you enjoy?'', m)
               else (case get_cocktails_with_ingredients e favs 5 of
                       Inl err \<Rightarrow> Inl err
                     | Inr similar \<Rightarrow>
                         Inr (generate e query (From_favorites favs (take 5 (map fst similar))) m)))
         else if cocktail_name \<noteq> None \<and> cocktail_name \<noteq> Some [] then
           (case get_similar_cocktails e (the cocktail_name) 5 of
              Inl err \<Rightarrow> Inl err
            | Inr [] \<Rightarrow>
                Inr (Direct (''I couldn't find '' @ the cocktail_name @
                             '' or any similar cocktails. Could you check the spelling or try a different cocktail?''), m)
            | Inr similar \<Rightarrow>
                Inr (generate e query
                       (Similar_cocktails (the cocktail_name)
                          (filter (\<lambda>c. lower (name c) \<noteq> lower (the cocktail_name))
                                  (take 5 (map fst similar)))) m))
         else if length (corpus e) < 5 then Inl ValueError
         else Inr (generate e query (Popular_cocktails (sample e 5)) m))"

definition process_general_query ::
  "env \<Rightarrow> string \<Rightarrow> user_memory \<Rightarrow> error + reply \<times> user_memory" where
  "process_general_query e query m =
     (case vector_search e query 3 of
        Inl err \<Rightarrow> Inl err
      | Inr relevant \<Rightarrow>
          (let p = General_info (map fst relevant) (set_order e (favorite_ingredients m));
               response = llm e query p;
               m1 = fst (process_user_message (now e) m query)
           in Inr (Generated p response,
                   add_to_conversation_history m1 ''assistant'' response (now e))))"

definition asks_to_recall :: "string \<Rightarrow> bool" where
  "asks_to_recall query =
     (sublist ''what are my'' (lower query) \<or> sublist ''tell me my'' (lower query))"

definition process_preference_query ::
  "env \<Rightarrow> string \<Rightarrow> user_memory \<Rightarrow> error + reply \<times> user_memory" where
  "process_preference_query e query m =
     (if asks_to_recall query
      then Inr (generate e query
                  (Your_preferences (set_order e (favorite_ingredients m))
                                    (set_order e (favorite_cocktails m))) m)
      else (case process_user_message (now e) m query of (m1, preference_result) \<Rightarrow>
              if new_favorite_ingredients preference_result \<noteq> [] \<or>
                 new_favorite_cocktails preference_result \<noteq> []
              then Inr (generate e query
                          (Updated_preferences (new_favorite_ingredients preference_result)
                                               (new_favorite_cocktails preference_result)) m1)
              else process_general_query e query m1))"

definition generate_response ::
  "env \<Rightarrow> string \<Rightarrow> user_memory \<Rightarrow> error + reply \<times> user_memory" where
  "generate_response e query m =
     (let m1 = fst (process_user_message (now e) m query);
          query_type = identify_query_type query
      in if query_type = ''ingredient_query'' then process_ingredient_query e query m1
         else if query_type = ''cocktail_query'' then process_cocktail_query e query m1
         else if query_type = ''recommendation'' then process_recommendation_query e query m1
         else if query_type = ''preference'' then process_preference_query e query m1
         else process_general_query e query m1)"

section \<open>The chat endpoint (app/api/routes.py)\<close>

record chat_response =
  response :: string
  detected_ingredients :: "string list"
  detected_cocktails :: "string list"

definition chat :: "env \<Rightarrow> user_memory \<Rightarrow> string \<Rightarrow> error + chat_response \<times> user_memory" where
  "chat e user_memory msg =
     (case generate_response e msg user_memory of
        Inl err \<Rightarrow> Inl err
      | Inr (r, m) \<Rightarrow>
          Inr (\<lparr>response = reply_text r,
                detected_ingredients =
                  filter (\<lambda>i. i \<in> favorite_ingredients m) (detect_favorite_ingredients msg),
                detected_cocktails =
                  filter (\<lambda>c. c \<in> favorite_cocktails m) (detect_favorite_cocktails msg)\<rparr>, m))"

section \<open>A small corpus and environment for concrete runs\<close>

text \<open>The only pattern that the runs below hand to \<open>regex_library\<close> is
  \<open>gin (dry) martini\<close>, which is found in none of the names; the library of the example
  finds nothing.\<close>

definition example_rows :: "(string \<times> string \<times> string \<times> string \<times> string) list" where
  "example_rows =
    [(''Virgin Mojito'', ''6 mint leaves, 1 oz lemon juice, soda water (non-alcoholic)'', ''mint sprig'', ''Muddle and stir'', ''highball''),
     (''Mojito'', ''2 oz white rum, 6 mint leaves, 1 oz lemon juice'', ''mint sprig'', ''Muddle and stir'', ''highball''),
     (''Gin Fizz'', ''2 oz gin, 1 oz lemon juice, soda water'', '''', ''Shake'', ''highball''),
     (''Whiskey Sour'', ''2 oz whiskey, 1 oz lemon juice'', ''cherry'', ''Shake'', ''rocks''),
     (''Mint Julep'', ''2 oz bourbon, 4 mint leaves'', ''mint sprig'', ''Stir'', ''julep cup'')]"

definition example_corpus :: "cocktail list" where
  "example_corpus = clean_data example_rows"

definition example_env :: env where
  "example_env =
     \<lparr>now = ''2025-01-01T00:00:00'',
      corpus = example_corpus,
      vectors = [[0], [1], [2], [3], [4]],
      cocktail_data = example_corpus,
      encode = (\<lambda>text. [0]),
      llm = (\<lambda>query p. ''Cheers!''),
      sample = (\<lambda>n. take n example_corpus),
      set_order = (\<lambda>S. filter (\<lambda>x. x \<in> S) [''gin'', ''mint'', ''rum'']),
      regex_library = (\<lambda>pat. Inr (\<lambda>subject. False))\<rparr>"

section \<open>History bound\<close>

lemma last_n_length: "length (last_n n xs) \<le> n"
  by (simp add: last_n_def)

lemma last_n_snoc: "last_n n (last_n n xs @ [x]) = last_n n (xs @ [x])"
  by (cases "length xs \<le> n") (auto simp: last_n_def Suc_diff_le)

lemma history_step:
  "conversation_history (add_to_conversation_history m r c ts) =
     last_n 50 (conversation_history m @ [entry (r, c, ts)])"
  by (simp add: add_to_conversation_history_def Let_def last_n_def entry_def)

lemma add_all_last_n:
  "conversation_history m = last_n 50 h \<Longrightarrow>
   conversation_history (add_all m es) = last_n 50 (h @ map entry es)"
proof (induction es arbitrary: m h)
  case Nil
  then show ?case by simp
next
  case (Cons e es)
  obtain r c ts where e: "e = (r, c, ts)" by (cases e) auto
  have "conversation_history (add_to_conversation_history m r c ts) = last_n 50 ((h @ [entry e]))"
    using Cons.prems by (simp add: history_step last_n_snoc e)
  from Cons.IH [OF this] show ?case by (simp add: e)
qed

text \<open>
  C6.  After any sequence of appends the history holds at most 50 entries, and they are
  the last 50 of everything appended (after the entries present before), in append order.
  A history loaded with more than 50 entries is cut at the first append; with no append at
  all it is whatever was loaded, hence the side condition.
\<close>

theorem history_bound:
  "es \<noteq> [] \<or> length (conversation_history m) \<le> 50 \<Longrightarrow>
   length (conversation_history (add_all m es)) \<le> 50 \<and>
   conversation_history (add_all m es) = last_n 50 (conversation_history m @ map entry es)"
proof (cases es)
  case Nil
  assume "es \<noteq> [] \<or> length (conversation_history m) \<le> 50"
  with Nil show ?thesis by (simp add: last_n_def)
next
  case (Cons e es')
  obtain r c ts where e: "e = (r, c, ts)" by (cases e) auto
  have "conversation_history (add_all (add_to_conversation_history m r c ts) es') =
        last_n 50 ((conversation_history m @ [entry e]) @ map entry es')"
    by (rule add_all_last_n) (simp add: history_step e)
  then have eq: "conversation_history (add_all m es) =
        last_n 50 (conversation_history m @ map entry es)"
    by (simp add: Cons e)
  show ?thesis unfolding eq by (simp add: last_n_length)
qed

theorem history_bound_witness:
  "length (conversation_history (add_all new_memory (replicate 60 (''user'', ''hi'', ''t'')))) \<le> 50 \<and>
   conversation_history (add_all new_memory (replicate 60 (''user'', ''hi'', ''t''))) =
     replicate 50 (entry (''user'', ''hi'', ''t''))"
  using history_bound [of "replicate 60 (''user'', ''hi'', ''t'')" new_memory]
  by (simp add: new_memory_def last_n_def)

section \<open>Normalisation of strings\<close>

lemma lower_char_idem: "lower_char (lower_char c) = lower_char c"
  by (cases c) auto

lemma lower_idem: "lower (lower s) = lower s"
  by (simp add: lower_def lower_char_idem)

lemma is_space_lower_char: "is_space (lower_char c) = is_space c"
  by (cases c) (auto simp: is_space_def)

lemma dropWhile_space_lower: "dropWhile is_space (lower s) = lower (dropWhile is_space s)"
  by (induction s) (auto simp: lower_def is_space_lower_char)

lemma lower_rev: "lower (rev s) = rev (lower s)"
  by (simp add: lower_def rev_map)

lemma strip_lower: "strip (lower s) = lower (strip s)"
  by (simp add: strip_def lstrip_def rstrip_def dropWhile_space_lower lower_rev [symmetric])

lemma rstrip_idem: "rstrip (rstrip s) = rstrip s"
  by (simp add: rstrip_def dropWhile_idem)

lemma lstrip_rstrip: "lstrip (rstrip (lstrip s)) = rstrip (lstrip s)"
proof (cases "lstrip s")
  case Nil
  have "lstrip [] = []" "rstrip [] = []" by (simp_all add: rstrip_def lstrip_def)
  with Nil show ?thesis by simp
next
  case (Cons c t)
  then have c: "\<not> is_space c"
    unfolding lstrip_def by (metis hd_dropWhile list.sel(1) list.distinct(1))
  have "rstrip (c # t) \<noteq> [] \<and> hd (rstrip (c # t)) = c"
    unfolding rstrip_def using c
    by (induction t rule: rev_induct) auto
  then show ?thesis using c Cons unfolding lstrip_def
    by (cases "rstrip (c # t)") auto
qed

lemma strip_idem: "strip (strip s) = strip s"
  by (simp add: strip_def lstrip_rstrip rstrip_idem)

lemma normalize_fixed: "strip (lower (lower (strip x))) = lower (strip x)"
  by (simp add: lower_idem strip_lower strip_idem)

section \<open>The example corpus, evaluated\<close>

lemma example_corpus_eval:
  "example_corpus =
    [\<lparr>name = ''Virgin Mojito'', ingredients = ''6 mint leaves, 1 oz lemon juice, soda water (non-alcoholic)'',
      garnish = ''mint sprig'', preparation = ''Muddle and stir'', glass = ''highball'',
      is_alcoholic = False, ingredients_list = [''mint leaves'', ''lemon juice'', ''soda water'']\<rparr>,
     \<lparr>name = ''Mojito'', ingredients = ''2 oz white rum, 6 mint leaves, 1 oz lemon juice'',
      garnish = ''mint sprig'', preparation = ''Muddle and stir'', glass = ''highball'',
      is_alcoholic = True, ingredients_list = [''white rum'', ''mint leaves'', ''lemon juice'']\<rparr>,
     \<lparr>name = ''Gin Fizz'', ingredients = ''2 oz gin, 1 oz lemon juice, soda water'',
      garnish = '''', preparation = ''Shake'', glass = ''highball'',
      is_alcoholic = True, ingredients_list = [''gin'', ''lemon juice'', ''soda water'']\<rparr>,
     \<lparr>name = ''Whiskey Sour'', ingredients = ''2 oz whiskey, 1 oz lemon juice'',
      garnish = ''cherry'', preparation = ''Shake'', glass = ''rocks'',
      is_alcoholic = True, ingredients_list = [''whiskey'', ''lemon juice'']\<rparr>,
     \<lparr>name = ''Mint Julep'', ingredients = ''2 oz bourbon, 4 mint leaves'',
      garnish = ''mint sprig'', preparation = ''Stir'', glass = ''julep cup'',
      is_alcoholic = True, ingredients_list = [''bourbon'', ''mint leaves'']\<rparr>]"
  by code_simp

section \<open>Containment\<close>

text \<open>
  C5.  A record is in the result of \<open>get_cocktails_containing\<close> exactly when it is in the
  corpus and one of its ingredient tokens contains the lowercased query token as a
  substring.  The witness is a record found for \<open>Lemon\<close> through its token \<open>lemon juice\<close>,
  none of whose tokens equals \<open>lemon\<close>.
\<close>

theorem containing_iff:
  "r \<in> set (get_cocktails_containing df i) \<longleftrightarrow>
     r \<in> set df \<and> (\<exists>t \<in> set (ingredients_list r). sublist (lower i) t)"
  by (auto simp: get_cocktails_containing_def list_ex_iff)

theorem containing_iff_witness:
  "hd example_corpus \<in> set (get_cocktails_containing example_corpus ''Lemon'') \<and>
   ''lemon'' \<notin> set (ingredients_list (hd example_corpus))"
proof -
  have l: "lower ''Lemon'' = ''lemon''" by code_simp
  have s: "sublist ''lemon'' ''lemon juice''" by code_simp
  show ?thesis
    using containing_iff [of "hd example_corpus" example_corpus "''Lemon''"] s
    by (simp add: example_corpus_eval l)
qed

section \<open>Favorite ingredients\<close>

lemma add_new_ingredients_known:
  "set ds \<subseteq> favorite_ingredients m \<Longrightarrow> add_new_ingredients m ds = (m, [])"
  by (induction ds) auto

lemma add_favorite_cocktail_ingredients:
  "favorite_ingredients (add_favorite_cocktail m c) = favorite_ingredients m"
  by (simp add: add_favorite_cocktail_def)

lemma add_new_cocktails_result:
  "add_new_cocktails m cs = (m', new) \<Longrightarrow> favorite_ingredients m' = favorite_ingredients m"
proof (induction cs arbitrary: m m' new)
  case Nil
  then show ?case by simp
next
  case (Cons c cs)
  show ?case
  proof (cases "c \<in> favorite_cocktails m")
    case True
    with Cons.prems have "add_new_cocktails m cs = (m', new)" by simp
    then show ?thesis by (rule Cons.IH)
  next
    case False
    obtain m1 n1 where r: "add_new_cocktails (add_favorite_cocktail m c) cs = (m1, n1)"
      by (cases "add_new_cocktails (add_favorite_cocktail m c) cs")
    with False Cons.prems have "m' = m1" by simp
    with Cons.IH [OF r] show ?thesis by (simp add: add_favorite_cocktail_ingredients)
  qed
qed

lemma add_new_cocktails_ingredients:
  "favorite_ingredients (fst (add_new_cocktails m cs)) = favorite_ingredients m"
  by (cases "add_new_cocktails m cs") (simp add: add_new_cocktails_result)

lemma history_keeps_favorites:
  "favorite_ingredients (add_to_conversation_history m r c t) = favorite_ingredients m"
  "favorite_cocktails (add_to_conversation_history m r c t) = favorite_cocktails m"
  by (simp_all add: add_to_conversation_history_def Let_def)

text \<open>
  C7 (as amended).  A message all of whose detected ingredients are already favorites
  reports no new ingredient and leaves the favorite ingredients as they were; adding an
  ingredient whose normalised form is already a favorite changes nothing; adding and then
  removing an ingredient whose normalised form was not a favorite gives back the memory
  as it was; and adding \<open>Gin \<close> and then \<open>gin\<close> to a new memory leaves exactly \<open>gin\<close>.
\<close>

theorem favorite_idempotence:
  "(set (detect_favorite_ingredients msg) \<subseteq> favorite_ingredients m \<longrightarrow>
      new_favorite_ingredients (snd (process_user_message t m msg)) = [] \<and>
      favorite_ingredients (fst (process_user_message t m msg)) = favorite_ingredients m) \<and>
   (strip (lower x) \<in> favorite_ingredients m \<longrightarrow> add_favorite_ingredient m x = m) \<and>
   (strip (lower x) \<notin> favorite_ingredients m \<longrightarrow>
      remove_favorite_ingredient (add_favorite_ingredient m x) x = (m, True)) \<and>
   favorite_ingredients
     (add_favorite_ingredient (add_favorite_ingredient new_memory ''Gin '') ''gin'') = {''gin''}"
proof (intro conjI impI)
  assume a: "set (detect_favorite_ingredients msg) \<subseteq> favorite_ingredients m"
  obtain m2 nc where c: "add_new_cocktails m (detect_favorite_cocktails msg) = (m2, nc)"
    by (cases "add_new_cocktails m (detect_favorite_cocktails msg)")
  have m2: "favorite_ingredients m2 = favorite_ingredients m"
    using add_new_cocktails_ingredients [of m "detect_favorite_cocktails msg"] c by simp
  show "new_favorite_ingredients (snd (process_user_message t m msg)) = []"
    by (simp add: process_user_message_def add_new_ingredients_known [OF a] c)
  show "favorite_ingredients (fst (process_user_message t m msg)) = favorite_ingredients m"
    by (simp add: process_user_message_def add_new_ingredients_known [OF a] c m2
        history_keeps_favorites)
next
  assume "strip (lower x) \<in> favorite_ingredients m"
  then show "add_favorite_ingredient m x = m"
    by (simp add: add_favorite_ingredient_def insert_absorb)
next
  assume "strip (lower x) \<notin> favorite_ingredients m"
  then show "remove_favorite_ingredient (add_favorite_ingredient m x) x = (m, True)"
    by (simp add: add_favorite_ingredient_def remove_favorite_ingredient_def Let_def)
next
  have "strip (lower ''Gin '') = ''gin''" "strip (lower ''gin'') = ''gin''" by code_simp+
  then show "favorite_ingredients
     (add_favorite_ingredient (add_favorite_ingredient new_memory ''Gin '') ''gin'') = {''gin''}"
    by (simp add: add_favorite_ingredient_def new_memory_def)
qed

lemma detect_love_gin: "detect_favorite_ingredients ''I love gin.'' = [''gin'']"
  by code_simp

theorem favorite_idempotence_witness:
  "new_favorite_ingredients
     (snd (process_user_message ''t'' (add_favorite_ingredient new_memory ''Gin '') ''I love gin.'')) = [] \<and>
   favorite_ingredients
     (fst (process_user_message ''t'' (add_favorite_ingredient new_memory ''Gin '') ''I love gin.'')) = {''gin''} \<and>
   add_favorite_ingredient (add_favorite_ingredient new_memory ''Gin '') ''gin'' =
     add_favorite_ingredient new_memory ''Gin '' \<and>
   remove_favorite_ingredient
     (add_favorite_ingredient (add_favorite_ingredient new_memory ''Gin '') ''Rum'') ''Rum'' =
     (add_favorite_ingredient new_memory ''Gin '', True)"
proof -
  have n: "strip (lower ''Gin '') = ''gin''" "strip (lower ''gin'') = ''gin''"
    "strip (lower ''Rum'') = ''rum''" by code_simp+
  have f: "favorite_ingredients (add_favorite_ingredient new_memory ''Gin '') = {''gin''}"
    by (simp add: add_favorite_ingredient_def new_memory_def n)
  show ?thesis
    using favorite_idempotence [where msg = "''I love gin.''" and m = "add_favorite_ingredient new_memory ''Gin ''" and x = "''gin''" and t = "''t''"]
      favorite_idempotence [where msg = "''I love gin.''" and m = "add_favorite_ingredient new_memory ''Gin ''" and x = "''Rum''" and t = "''t''"]
    by (simp add: f n detect_love_gin)
qed

text \<open>
  The claim as stated fails for an item that was a favorite before: with \<open>gin\<close> already
  in the set, adding and removing \<open>gin\<close> leaves the set without it.
\<close>

theorem add_remove_counterexample:
  "favorite_ingredients
     (fst (remove_favorite_ingredient
             (add_favorite_ingredient (add_favorite_ingredient new_memory ''gin'') ''gin'') ''gin''))
   \<noteq> favorite_ingredients (add_favorite_ingredient new_memory ''gin'')"
proof -
  have n: "strip (lower ''gin'') = ''gin''" by code_simp
  show ?thesis
    by (simp add: add_favorite_ingredient_def remove_favorite_ingredient_def new_memory_def n Let_def)
qed

section \<open>Intent classification\<close>

text \<open>The classifier always answers with one of the five categories, and its answer
  depends on the query only through its lowercased form.\<close>

lemma identify_query_type_total:
  "identify_query_type q \<in>
     {''ingredient_query'', ''cocktail_query'', ''recommendation'', ''preference'', ''general''}"
  by (simp add: identify_query_type_def Let_def)

lemma identify_query_type_lower: "identify_query_type (lower q) = identify_query_type q"
  by (simp add: identify_query_type_def lower_idem)

text \<open>
  C3.  The rules are written with a capital \<open>I\<close> (\<open>what cocktail should I (?:make|try|drink)\<close>,
  \<open>can I make\<close>, \<open>(?:my|I)\<close>) but are matched, case-sensitively, against the lowercased
  query, so these rules never match: the query below is classified \<open>general\<close>, where
  matching the same rule list without regard to case gives \<open>recommendation\<close>.
\<close>

theorem uppercase_rule_never_matches:
  "identify_query_type ''What cocktail should I try?'' = ''general'' \<and>
   identify_query_type_ignoring_case ''What cocktail should I try?'' = ''recommendation''"
  by code_simp

section \<open>Lookup by name\<close>

text \<open>Scenario D: with \<open>Virgin Mojito\<close> stored before \<open>Mojito\<close>, the lookup of \<open>mojito\<close> returns
  the exact match.\<close>

lemma lookup_mojito:
  "get_cocktail_by_name lib example_corpus ''mojito'' = Inr (Some (example_corpus ! 1))"
  unfolding example_corpus_eval by code_simp

text \<open>
  C4.  When no name matches exactly, the name is searched for as a regular expression,
  not as a substring: \<open>gin.fizz\<close> finds \<open>Gin Fizz\<close>, although no name in the corpus contains
  \<open>gin.fizz\<close>.  The pattern is one that \<open>compile_name\<close> covers, so this holds whatever the
  library does with other patterns.
\<close>

theorem name_lookup_uses_regex:
  "get_cocktail_by_name lib example_corpus ''gin.fizz'' = Inr (Some (example_corpus ! 2)) \<and>
   \<not> list_ex (\<lambda>r. sublist (lower ''gin.fizz'') (lower (name r))) example_corpus"
  unfolding example_corpus_eval by code_simp

section \<open>Normalisation of ingredient tokens\<close>

subsection \<open>Facts about the matcher and the scanners\<close>












subsection \<open>Splitting at the delimiters\<close>




subsection \<open>Removing parenthesised notes\<close>
















subsection \<open>Tokens\<close>

















section \<open>Ingredient queries\<close>

lemma lemon_and_mint:
  "identify_query_type ''cocktails with lemon and mint'' = ''ingredient_query''"
  "extract_ingredients_from_query ''cocktails with lemon and mint'' = [''lemon'', ''mint'']"
  "is_non_alcoholic_query ''cocktails with lemon and mint'' = False"
  by code_simp+

lemma containing_lemon_mint:
  "get_cocktails_containing example_corpus ''lemon'' =
     [example_corpus ! 0, example_corpus ! 1, example_corpus ! 2, example_corpus ! 3]"
  "get_cocktails_containing example_corpus ''mint'' =
     [example_corpus ! 0, example_corpus ! 1, example_corpus ! 4]"
  unfolding example_corpus_eval by code_simp+

text \<open>With a single ingredient the branch answers from the records that contain it (from
  the non-alcoholic ones among them, when the query asks so), or says that there is
  none.\<close>

lemma one_ingredient:
  "extract_ingredients_from_query query = [i] \<Longrightarrow>
   result_df (relevant_cocktails df query (extract_ingredients_from_query query)) =
     Inr (Some (if is_non_alcoholic_query query
                then filter (\<lambda>r. \<not> is_alcoholic r) (get_cocktails_containing df i)
                else get_cocktails_containing df i))"
  by (simp add: result_df_def relevant_cocktails_def Let_def)

text \<open>With two or more ingredients the frames are merged, and the merge of two frames that
  both have rows raises.\<close>

lemma two_frames_raise:
  "f1 \<noteq> [] \<Longrightarrow> f2 \<noteq> [] \<Longrightarrow> result_df (f1 # f2 # fs) = Inl TypeError"
  by (simp add: result_df_def merge_inner_def)

lemma branch_raises:
  "extract_ingredients_from_query query = i1 # i2 # rest \<Longrightarrow>
   \<not> is_non_alcoholic_query query \<Longrightarrow>
   get_cocktails_containing (corpus e) i1 \<noteq> [] \<Longrightarrow>
   get_cocktails_containing (corpus e) i2 \<noteq> [] \<Longrightarrow>
   process_ingredient_query e query m = Inl TypeError"
  by (simp add: process_ingredient_query_def relevant_cocktails_def Let_def two_frames_raise)

text \<open>
  C1.  The branch means to intersect the per-ingredient frames (\<open>Find intersection of
  matching cocktails if multiple ingredients\<close>) and does so with \<open>merge(df, how="inner")\<close>.
  For Scenario A, \<open>cocktails with lemon and mint\<close>, the intent and the entities are as claimed
  and both frames have rows, two of them in common; the merge raises, so the branch and
  with it the request end in \<open>TypeError\<close> instead of producing the intersection.
\<close>

theorem intersection_raises:
  "identify_query_type ''cocktails with lemon and mint'' = ''ingredient_query'' \<and>
   extract_ingredients_from_query ''cocktails with lemon and mint'' = [''lemon'', ''mint''] \<and>
   set (get_cocktails_containing example_corpus ''lemon'') \<inter>
     set (get_cocktails_containing example_corpus ''mint'') = {example_corpus ! 0, example_corpus ! 1} \<and>
   process_ingredient_query example_env ''cocktails with lemon and mint''
     (fst (process_user_message (now example_env) new_memory ''cocktails with lemon and mint'')) =
     Inl TypeError \<and>
   generate_response example_env ''cocktails with lemon and mint'' new_memory = Inl TypeError"
proof -
  have d: "example_corpus ! 4 \<noteq> example_corpus ! 2" "example_corpus ! 4 \<noteq> example_corpus ! 3"
    "example_corpus ! 2 \<noteq> example_corpus ! 0" "example_corpus ! 3 \<noteq> example_corpus ! 0"
    "example_corpus ! 2 \<noteq> example_corpus ! 1" "example_corpus ! 3 \<noteq> example_corpus ! 1"
    "example_corpus ! 2 \<noteq> example_corpus ! 4" "example_corpus ! 3 \<noteq> example_corpus ! 4"
    unfolding example_corpus_eval by simp_all
  have i: "set (get_cocktails_containing example_corpus ''lemon'') \<inter>
     set (get_cocktails_containing example_corpus ''mint'') = {example_corpus ! 0, example_corpus ! 1}"
    using d by (auto simp: containing_lemon_mint)
  have c: "corpus example_env = example_corpus" by (simp add: example_env_def)
  have b: "process_ingredient_query example_env ''cocktails with lemon and mint'' m = Inl TypeError" for m
    by (rule branch_raises [where ?i1.0 = "''lemon''" and ?i2.0 = "''mint''" and rest = "[]"])
       (simp_all add: lemon_and_mint containing_lemon_mint c)
  have g: "generate_response example_env ''cocktails with lemon and mint'' new_memory = Inl TypeError"
    by (simp add: generate_response_def Let_def lemon_and_mint b)
  from i b g show ?thesis by (simp add: lemon_and_mint)
qed

section \<open>Preferences through the orchestrator\<close>

lemma detect_ingredients_normalised:
  "d \<in> set (detect_favorite_ingredients msg) \<Longrightarrow> strip (lower d) = d"
  by (auto simp: detect_favorite_ingredients_def strip_lower_nonempty_def normalize_fixed)

lemma detect_cocktails_stripped:
  "d \<in> set (detect_favorite_cocktails msg) \<Longrightarrow> strip d = d"
  by (auto simp: detect_favorite_cocktails_def strip_nonempty_def strip_idem)

lemma add_favorite_ingredient_fields:
  "favorite_ingredients (add_favorite_ingredient m i) = insert (strip (lower i)) (favorite_ingredients m)"
  "favorite_cocktails (add_favorite_ingredient m i) = favorite_cocktails m"
  by (simp_all add: add_favorite_ingredient_def)

lemma add_favorite_cocktail_fields:
  "favorite_cocktails (add_favorite_cocktail m c) = insert (strip c) (favorite_cocktails m)"
  by (simp_all add: add_favorite_cocktail_def)

lemma add_new_ingredients_favs:
  "\<forall>d \<in> set ds. strip (lower d) = d \<Longrightarrow> add_new_ingredients m ds = (m', new) \<Longrightarrow>
   favorite_ingredients m' = favorite_ingredients m \<union> set ds \<and>
   favorite_cocktails m' = favorite_cocktails m"
proof (induction ds arbitrary: m m' new)
  case Nil
  then show ?case by simp
next
  case (Cons d ds)
  from Cons.prems(1) have n: "strip (lower d) = d" and rest: "\<forall>d \<in> set ds. strip (lower d) = d"
    by simp_all
  show ?case
  proof (cases "d \<in> favorite_ingredients m")
    case True
    with Cons.prems(2) have "add_new_ingredients m ds = (m', new)" by simp
    from Cons.IH [OF rest this] True show ?thesis by auto
  next
    case False
    obtain m1 n1 where r: "add_new_ingredients (add_favorite_ingredient m d) ds = (m1, n1)"
      by (cases "add_new_ingredients (add_favorite_ingredient m d) ds")
    with False Cons.prems(2) have "m' = m1" by simp
    with Cons.IH [OF rest r] show ?thesis
      by (auto simp: add_favorite_ingredient_fields n)
  qed
qed

lemma add_new_cocktails_favs:
  "\<forall>d \<in> set ds. strip d = d \<Longrightarrow> add_new_cocktails m ds = (m', new) \<Longrightarrow>
   favorite_cocktails m' = favorite_cocktails m \<union> set ds"
proof (induction ds arbitrary: m m' new)
  case Nil
  then show ?case by simp
next
  case (Cons d ds)
  from Cons.prems(1) have n: "strip d = d" and rest: "\<forall>d \<in> set ds. strip d = d"
    by simp_all
  show ?case
  proof (cases "d \<in> favorite_cocktails m")
    case True
    with Cons.prems(2) have "add_new_cocktails m ds = (m', new)" by simp
    from Cons.IH [OF rest this] True show ?thesis by auto
  next
    case False
    obtain m1 n1 where r: "add_new_cocktails (add_favorite_cocktail m d) ds = (m1, n1)"
      by (cases "add_new_cocktails (add_favorite_cocktail m d) ds")
    with False Cons.prems(2) have "m' = m1" by simp
    with Cons.IH [OF rest r] show ?thesis
      by (auto simp: add_favorite_cocktail_fields n)
  qed
qed

lemma add_new_cocktails_known:
  "set ds \<subseteq> favorite_cocktails m \<Longrightarrow> add_new_cocktails m ds = (m, [])"
  by (induction ds) auto

lemma process_user_message_favorites:
  "favorite_ingredients (fst (process_user_message t m q)) =
     favorite_ingredients m \<union> set (detect_favorite_ingredients q)"
  "favorite_cocktails (fst (process_user_message t m q)) =
     favorite_cocktails m \<union> set (detect_favorite_cocktails q)"
proof -
  obtain m1 ni where i: "add_new_ingredients m (detect_favorite_ingredients q) = (m1, ni)"
    by (cases "add_new_ingredients m (detect_favorite_ingredients q)")
  obtain m2 nc where c: "add_new_cocktails m1 (detect_favorite_cocktails q) = (m2, nc)"
    by (cases "add_new_cocktails m1 (detect_favorite_cocktails q)")
  have 1: "favorite_ingredients m1 = favorite_ingredients m \<union> set (detect_favorite_ingredients q)"
    and 2: "favorite_cocktails m1 = favorite_cocktails m"
    using add_new_ingredients_favs [OF _ i] detect_ingredients_normalised by blast+
  have 3: "favorite_cocktails m2 = favorite_cocktails m1 \<union> set (detect_favorite_cocktails q)"
    using add_new_cocktails_favs [OF _ c] detect_cocktails_stripped by blast
  have 4: "favorite_ingredients m2 = favorite_ingredients m1"
    using add_new_cocktails_result [OF c] .
  show "favorite_ingredients (fst (process_user_message t m q)) =
     favorite_ingredients m \<union> set (detect_favorite_ingredients q)"
    by (simp add: process_user_message_def i c history_keeps_favorites 1 4)
  show "favorite_cocktails (fst (process_user_message t m q)) =
     favorite_cocktails m \<union> set (detect_favorite_cocktails q)"
    by (simp add: process_user_message_def i c history_keeps_favorites 2 3)
qed

lemma nothing_new:
  "set (detect_favorite_ingredients q) \<subseteq> favorite_ingredients m \<Longrightarrow>
   set (detect_favorite_cocktails q) \<subseteq> favorite_cocktails m \<Longrightarrow>
   snd (process_user_message t m q) = \<lparr>new_favorite_ingredients = [], new_favorite_cocktails = []\<rparr>"
  by (simp add: process_user_message_def add_new_ingredients_known add_new_cocktails_known)

text \<open>Processing the same message a second time reports nothing.\<close>

lemma second_pass_reports_nothing:
  "snd (process_user_message t' (fst (process_user_message t m q)) q) =
     \<lparr>new_favorite_ingredients = [], new_favorite_cocktails = []\<rparr>"
  by (rule nothing_new) (simp_all add: process_user_message_favorites)

lemma preference_falls_through:
  "identify_query_type q = ''preference'' \<Longrightarrow> \<not> asks_to_recall q \<Longrightarrow>
   generate_response e q m =
     process_general_query e q
       (fst (process_user_message (now e) (fst (process_user_message (now e) m q)) q))"
proof -
  assume a: "identify_query_type q = ''preference''" "\<not> asks_to_recall q"
  let ?m1 = "fst (process_user_message (now e) m q)"
  obtain m2 res where p: "process_user_message (now e) ?m1 q = (m2, res)"
    by (cases "process_user_message (now e) ?m1 q")
  have "res = \<lparr>new_favorite_ingredients = [], new_favorite_cocktails = []\<rparr>"
    using second_pass_reports_nothing [of "now e" "now e" m q] p by simp
  then show ?thesis using a p
    by (simp add: generate_response_def process_preference_query_def Let_def)
qed

lemma py_index_in_range:
  "- int (length xs) \<le> i \<Longrightarrow> i < int (length xs) \<Longrightarrow> \<exists>x. py_index xs i = Inr x"
  by (simp add: py_index_def)

lemma collect_results_total:
  "\<forall>h \<in> set hits. - int (length data) \<le> fst h \<Longrightarrow> \<exists>rs. collect_results data hits = Inr rs"
proof (induction hits)
  case Nil
  then show ?case by simp
next
  case (Cons h hits)
  obtain idx d where h: "h = (idx, d)" by (cases h)
  from Cons obtain rs where rs: "collect_results data hits = Inr rs" by auto
  from Cons.prems h have lo: "- int (length data) \<le> idx" by simp
  show ?case
  proof (cases "idx < int (length data)")
    case True
    with lo obtain x where "py_index data idx = Inr x"
      using py_index_in_range by blast
    with True show ?thesis by (simp add: h rs)
  next
    case False
    then show ?thesis by (simp add: h rs)
  qed
qed

lemma nearest_positions:
  "h \<in> set (nearest vecs q k) \<Longrightarrow> 0 \<le> fst h \<and> fst h < int (length vecs)"
proof -
  assume m: "h \<in> set (nearest vecs q k)"
  obtain a b where h: "h = (a, b)" by (cases h)
  from m have "h \<in> set (sort_key snd (zip (map int [0 ..< length vecs]) (map (l2sqr q) vecs)))"
    unfolding nearest_def by (rule in_set_takeD)
  then have "(a, b) \<in> set (zip (map int [0 ..< length vecs]) (map (l2sqr q) vecs))"
    by (simp add: h)
  then have "a \<in> set (map int [0 ..< length vecs])" by (rule set_zip_leftD)
  then show ?thesis by (auto simp: h)
qed

lemma length_nearest: "length (nearest vecs q k) = min k (length vecs)"
  by (simp add: nearest_def)

lemma index_search_positions:
  "h \<in> set (index_search vecs q k) \<Longrightarrow>
   (0 \<le> fst h \<and> fst h < int (length vecs)) \<or> (h = (- 1, flt_max) \<and> length vecs < k)"
  by (auto simp: index_search_def length_nearest dest: nearest_positions)

lemma search_cocktails_total:
  "data \<noteq> [] \<or> k \<le> length vecs \<Longrightarrow> \<exists>rs. search_cocktails vecs data q k = Inr rs"
proof -
  assume a: "data \<noteq> [] \<or> k \<le> length vecs"
  have "\<forall>h \<in> set (index_search vecs q k). - int (length data) \<le> fst h"
  proof
    fix h assume "h \<in> set (index_search vecs q k)"
    from index_search_positions [OF this] a show "- int (length data) \<le> fst h"
      by (cases data) auto
  qed
  then show ?thesis unfolding search_cocktails_def by (rule collect_results_total)
qed

lemma process_general_query_total:
  "cocktail_data e \<noteq> [] \<or> 3 \<le> length (vectors e) \<Longrightarrow>
   \<exists>hits favs text m'. process_general_query e q m = Inr (Generated (General_info hits favs) text, m')"
proof -
  assume "cocktail_data e \<noteq> [] \<or> 3 \<le> length (vectors e)"
  then obtain rs where "vector_search e q 3 = Inr rs"
    unfolding vector_search_def using search_cocktails_total by blast
  then show ?thesis by (simp add: process_general_query_def Let_def)
qed

lemma example_env_searchable: "cocktail_data example_env \<noteq> [] \<or> 3 \<le> length (vectors example_env)"
  by (simp add: example_env_def)

lemma gin_message:
  "detect_favorite_ingredients ''My favorite ingredient is gin.'' = [''gin'']"
  "detect_favorite_cocktails ''My favorite ingredient is gin.'' = []"
  "identify_query_type ''My favorite ingredient is gin.'' = ''preference''"
  "asks_to_recall ''My favorite ingredient is gin.'' = False"
  by code_simp+

text \<open>
  C2.  \<open>generate_response\<close> has already stored the preferences of the message when it
  dispatches, and \<open>process_preference_query\<close> decides what to report by processing the
  message once more, which finds nothing new (\<open>second_pass_reports_nothing\<close>).  So a
  \<open>preference\<close> request that does not ask to recall always takes the general path
  (\<open>preference_falls_through\<close>).  Here the first pass finds the new favorite \<open>gin\<close>, and the
  reply is nevertheless generated from the general context.
\<close>

theorem preference_update_never_reported:
  "new_favorite_ingredients
     (snd (process_user_message (now example_env) new_memory ''My favorite ingredient is gin.'')) = [''gin''] \<and>
   identify_query_type ''My favorite ingredient is gin.'' = ''preference'' \<and>
   \<not> asks_to_recall ''My favorite ingredient is gin.'' \<and>
   (\<exists>hits favs text m'.
      generate_response example_env ''My favorite ingredient is gin.'' new_memory =
        Inr (Generated (General_info hits favs) text, m'))"
proof -
  have "new_favorite_ingredients
     (snd (process_user_message (now example_env) new_memory ''My favorite ingredient is gin.'')) = [''gin'']"
    by (simp add: process_user_message_def gin_message new_memory_def)
  moreover have "\<exists>hits favs text m'.
      generate_response example_env ''My favorite ingredient is gin.'' new_memory =
        Inr (Generated (General_info hits favs) text, m')"
    using process_general_query_total [OF example_env_searchable]
    by (simp add: preference_falls_through gin_message)
  ultimately show ?thesis by (simp add: gin_message)
qed

lemma generate_favorites:
  "generate e q p m = (r, m') \<Longrightarrow>
   favorite_ingredients m' = favorite_ingredients m \<and> favorite_cocktails m' = favorite_cocktails m"
  by (auto simp: generate_def Let_def history_keeps_favorites)

lemma process_ingredient_query_favorites:
  "process_ingredient_query e q m = Inr (r, m') \<Longrightarrow>
   favorite_ingredients m' = favorite_ingredients m \<and> favorite_cocktails m' = favorite_cocktails m"
  by (auto simp: process_ingredient_query_def Let_def dest: generate_favorites
      split: option.splits list.splits if_splits sum.splits)

lemma process_cocktail_query_favorites:
  "process_cocktail_query e q m = Inr (r, m') \<Longrightarrow>
   favorite_ingredients m' = favorite_ingredients m \<and> favorite_cocktails m' = favorite_cocktails m"
  by (auto simp: process_cocktail_query_def dest: generate_favorites
      split: option.splits sum.splits if_splits)

lemma process_recommendation_query_favorites:
  "process_recommendation_query e q m = Inr (r, m') \<Longrightarrow>
   favorite_ingredients m' = favorite_ingredients m \<and> favorite_cocktails m' = favorite_cocktails m"
  by (auto simp: process_recommendation_query_def Let_def dest: generate_favorites
      split: option.splits sum.splits if_splits list.splits)

lemma process_general_query_favorites:
  "process_general_query e q m = Inr (r, m') \<Longrightarrow>
   favorite_ingredients m' = favorite_ingredients m \<union> set (detect_favorite_ingredients q) \<and>
   favorite_cocktails m' = favorite_cocktails m \<union> set (detect_favorite_cocktails q)"
  by (auto simp: process_general_query_def Let_def history_keeps_favorites
      process_user_message_favorites split: sum.splits)

lemma process_preference_query_favorites:
  "process_preference_query e q m = Inr (r, m') \<Longrightarrow>
   set (detect_favorite_ingredients q) \<subseteq> favorite_ingredients m \<Longrightarrow>
   set (detect_favorite_cocktails q) \<subseteq> favorite_cocktails m \<Longrightarrow>
   favorite_ingredients m' = favorite_ingredients m \<and> favorite_cocktails m' = favorite_cocktails m"
proof -
  assume a: "process_preference_query e q m = Inr (r, m')"
    and i: "set (detect_favorite_ingredients q) \<subseteq> favorite_ingredients m"
    and c: "set (detect_favorite_cocktails q) \<subseteq> favorite_cocktails m"
  obtain m1 res where p: "process_user_message (now e) m q = (m1, res)"
    by (cases "process_user_message (now e) m q")
  have m1: "favorite_ingredients m1 = favorite_ingredients m" "favorite_cocktails m1 = favorite_cocktails m"
    using process_user_message_favorites [of "now e" m q] p i c by auto
  have res: "res = \<lparr>new_favorite_ingredients = [], new_favorite_cocktails = []\<rparr>"
    using nothing_new [OF i c, of "now e"] p by simp
  show ?thesis
  proof (cases "asks_to_recall q")
    case True
    with a show ?thesis
      by (auto simp: process_preference_query_def dest: generate_favorites)
  next
    case False
    with a p res have "process_general_query e q m1 = Inr (r, m')"
      by (simp add: process_preference_query_def)
    from process_general_query_favorites [OF this] m1 i c show ?thesis by auto
  qed
qed

lemma generate_response_favorites:
  "generate_response e q m = Inr (r, m') \<Longrightarrow>
   favorite_ingredients m' = favorite_ingredients m \<union> set (detect_favorite_ingredients q) \<and>
   favorite_cocktails m' = favorite_cocktails m \<union> set (detect_favorite_cocktails q)"
proof -
  assume a: "generate_response e q m = Inr (r, m')"
  let ?m1 = "fst (process_user_message (now e) m q)"
  have i: "favorite_ingredients ?m1 = favorite_ingredients m \<union> set (detect_favorite_ingredients q)"
    and c: "favorite_cocktails ?m1 = favorite_cocktails m \<union> set (detect_favorite_cocktails q)"
    by (simp_all add: process_user_message_favorites)
  have "favorite_ingredients m' = favorite_ingredients ?m1 \<and> favorite_cocktails m' = favorite_cocktails ?m1"
  proof (cases "identify_query_type q = ''ingredient_query''")
    case True
    with a have "process_ingredient_query e q ?m1 = Inr (r, m')"
      by (simp add: generate_response_def Let_def)
    then show ?thesis by (rule process_ingredient_query_favorites)
  next
    case n1: False
    show ?thesis
    proof (cases "identify_query_type q = ''cocktail_query''")
      case True
      with a n1 have "process_cocktail_query e q ?m1 = Inr (r, m')"
        by (simp add: generate_response_def Let_def)
      then show ?thesis by (rule process_cocktail_query_favorites)
    next
      case n2: False
      show ?thesis
      proof (cases "identify_query_type q = ''recommendation''")
        case True
        with a n1 n2 have "process_recommendation_query e q ?m1 = Inr (r, m')"
          by (simp add: generate_response_def Let_def)
        then show ?thesis by (rule process_recommendation_query_favorites)
      next
        case n3: False
        show ?thesis
        proof (cases "identify_query_type q = ''preference''")
          case True
          with a n1 n2 n3 have "process_preference_query e q ?m1 = Inr (r, m')"
            by (simp add: generate_response_def Let_def)
          then show ?thesis
            by (rule process_preference_query_favorites) (simp_all add: i c)
        next
          case False
          with a n1 n2 n3 have "process_general_query e q ?m1 = Inr (r, m')"
            by (simp add: generate_response_def Let_def)
          from process_general_query_favorites [OF this] show ?thesis
            by (auto simp: i c)
        qed
      qed
    qed
  qed
  then show ?thesis by (simp add: i c)
qed

text \<open>
  C10.  The chat endpoint reports the detected phrases that are favorites after the request
  has been processed.  Processing stores every detected phrase, so all of them are
  reported, whether or not they were favorites before.
\<close>

theorem chat_reports_all_detected:
  "chat e m msg = Inr (resp, m') \<Longrightarrow>
   detected_ingredients resp =
     filter (\<lambda>i. i \<in> favorite_ingredients m') (detect_favorite_ingredients msg) \<and>
   detected_cocktails resp =
     filter (\<lambda>c. c \<in> favorite_cocktails m') (detect_favorite_cocktails msg) \<and>
   detected_ingredients resp = detect_favorite_ingredients msg \<and>
   detected_cocktails resp = detect_favorite_cocktails msg"
proof -
  assume a: "chat e m msg = Inr (resp, m')"
  then obtain r where g: "generate_response e msg m = Inr (r, m')"
    and resp: "resp = \<lparr>response = reply_text r,
                detected_ingredients =
                  filter (\<lambda>i. i \<in> favorite_ingredients m') (detect_favorite_ingredients msg),
                detected_cocktails =
                  filter (\<lambda>c. c \<in> favorite_cocktails m') (detect_favorite_cocktails msg)\<rparr>"
    by (auto simp: chat_def split: sum.splits)
  from generate_response_favorites [OF g]
  have "filter (\<lambda>i. i \<in> favorite_ingredients m') (detect_favorite_ingredients msg) =
          detect_favorite_ingredients msg"
    and "filter (\<lambda>c. c \<in> favorite_cocktails m') (detect_favorite_cocktails msg) =
          detect_favorite_cocktails msg"
    by (auto simp: filter_id_conv)
  then show ?thesis by (simp add: resp)
qed

lemma love_gin:
  "detect_favorite_ingredients ''I love gin.'' = [''gin'']"
  "identify_query_type ''I love gin.'' = ''general''"
  "strip (lower ''gin'') = ''gin''"
  by code_simp+

lemma martini:
  "detect_favorite_ingredients ''I love gin. What is a gin (dry) martini'' = [''gin'']"
  "identify_query_type ''I love gin. What is a gin (dry) martini'' = ''cocktail_query''"
  "extract_cocktail_from_query ''I love gin. What is a gin (dry) martini'' = Some ''gin (dry) martini''"
  "compile_name (lower ''gin (dry) martini'') = None"
  by code_simp+

lemma martini_lookup:
  "get_cocktail_by_name (\<lambda>pat. Inr (\<lambda>subject. False)) example_corpus ''gin (dry) martini'' = Inr None"
  unfolding example_corpus_eval by code_simp

text \<open>Two requests of a user for whom \<open>gin\<close> is a favorite already: one answered on the
  general path, one a cocktail query whose name is not a plain pattern and is not found.
  Both report \<open>gin\<close>.\<close>

theorem chat_reports_all_detected_witness:
  "(\<exists>resp m'. chat example_env (add_favorite_ingredient new_memory ''gin'') ''I love gin.'' = Inr (resp, m') \<and>
      detected_ingredients resp = [''gin'']) \<and>
   (\<exists>resp m'. chat example_env (add_favorite_ingredient new_memory ''gin'')
                   ''I love gin. What is a gin (dry) martini'' = Inr (resp, m') \<and>
      detected_ingredients resp = [''gin'']) \<and>
   ''gin'' \<in> favorite_ingredients (add_favorite_ingredient new_memory ''gin'')"
proof -
  let ?m = "add_favorite_ingredient new_memory ''gin''"
  have "generate_response example_env ''I love gin.'' ?m =
          process_general_query example_env ''I love gin.''
            (fst (process_user_message (now example_env) ?m ''I love gin.''))"
    by (simp add: generate_response_def Let_def love_gin)
  with process_general_query_total [OF example_env_searchable] obtain r m' where
    "generate_response example_env ''I love gin.'' ?m = Inr (r, m')" by metis
  then obtain resp where c: "chat example_env ?m ''I love gin.'' = Inr (resp, m')"
    by (simp add: chat_def)
  from chat_reports_all_detected [OF c]
  have "detected_ingredients resp = detect_favorite_ingredients ''I love gin.''" by blast
  then have 1: "detected_ingredients resp = [''gin'']" by (simp only: love_gin)
  let ?q = "''I love gin. What is a gin (dry) martini''"
  let ?m1 = "fst (process_user_message (now example_env) ?m ?q)"
  have e: "regex_library example_env = (\<lambda>pat. Inr (\<lambda>subject. False))" "corpus example_env = example_corpus"
    by (simp_all add: example_env_def)
  have "process_cocktail_query example_env ?q ?m1 =
          Inr (Direct (''I couldn't find information about '' @ ''gin (dry) martini'' @
                       ''. Could you check the spelling or try a different cocktail?''), ?m1)"
    unfolding process_cocktail_query_def martini e by (simp add: martini_lookup)
  then have "generate_response example_env ?q ?m =
          Inr (Direct (''I couldn't find information about '' @ ''gin (dry) martini'' @
                       ''. Could you check the spelling or try a different cocktail?''), ?m1)"
    by (simp add: generate_response_def Let_def martini)
  then obtain resp2 where c2: "chat example_env ?m ?q = Inr (resp2, ?m1)"
    by (simp add: chat_def)
  from chat_reports_all_detected [OF c2]
  have "detected_ingredients resp2 = detect_favorite_ingredients ?q" by blast
  then have 2: "detected_ingredients resp2 = [''gin'']" by (simp only: martini)
  have 3: "''gin'' \<in> favorite_ingredients ?m"
    by (simp add: add_favorite_ingredient_def love_gin)
  from c 1 c2 2 3 show ?thesis by blast
qed

section \<open>Similarity scores\<close>
















end
